theory Spec2Isabelle
  imports Complex_Main "HOL-Library.Multiset"
begin

section \<open>Data model\<close>

text \<open>
  A GeoJSON point feature as the script reads it: \<open>geometry.coordinates\<close>,
  \<open>properties.label\<close> and \<open>properties.color\<close>. The parsed document is an object whose
  \<open>features\<close> property is an array; the array is a JavaScript object shared by reference,
  so a function that changes it hands the changed collection back. Strings are lists of
  characters and are equal when they have the same characters; nothing below depends on
  the character set.
\<close>

record feature =
  coordinates :: "real \<times> real"
  label :: string
  color :: string

record feature_collection =
  features :: "feature list"

text \<open>
  The Leaflet map as far as the script touches it: the view set by \<open>setView\<close>, the tile
  layers, the GeoJSON layers (one circle marker per feature) and the controls added with
  \<open>addTo(map)\<close>.
\<close>

record circle_marker =
  latlng :: "real \<times> real"
  radius :: nat
  fillOpacity :: real
  marker_color :: string
  marker_label :: string
  tooltip :: string

record dom_div =
  className :: string
  innerHTML :: string

record control =
  position :: string
  container :: dom_div

record leaflet_map =
  center :: "real \<times> real"
  zoom :: nat
  tile_layers :: "string list"
  layers :: "circle_marker list list"
  controls :: "control list"

section \<open>Built-ins of the language used by \<open>buildLegendFromData\<close>\<close>

text \<open>
  \<open>String.prototype.localeCompare\<close> is supplied by the host and depends on its locale, so
  it is a parameter of the model: a function from two strings to a number that is negative,
  zero or positive. The language requires the function given to \<open>sort\<close> to be a consistent
  comparator; \<open>consistent_comparator\<close> states what that amounts to: an element compares
  equal to itself, swapping the arguments swaps the sign, and "not after" is transitive.
\<close>

type_synonym comparator = "string \<Rightarrow> string \<Rightarrow> int"

definition consistent_comparator :: "comparator \<Rightarrow> bool" where
  "consistent_comparator c \<longleftrightarrow>
     (\<forall>a. c a a = 0) \<and>
     (\<forall>a b. (c a b < 0) = (0 < c b a)) \<and>
     (\<forall>a b d. c a b \<le> 0 \<and> c b d \<le> 0 \<longrightarrow> c a d \<le> 0)"

text \<open>
  One concrete comparator, used wherever the script is evaluated on concrete labels:
  comparison of the strings character code by character code, a shorter string before
  its extensions.
\<close>

fun code_unit_compare :: comparator where
  "code_unit_compare [] [] = 0"
| "code_unit_compare [] (y # ys) = -1"
| "code_unit_compare (x # xs) [] = 1"
| "code_unit_compare (x # xs) (y # ys) =
     (if of_char x < (of_char y :: nat) then -1
      else if of_char y < (of_char x :: nat) then 1
      else code_unit_compare xs ys)"

text \<open>
  \<open>Array.prototype.sort(comparefn)\<close> sorts the array in place, is stable, and returns the
  same array. \<open>comparefn a b \<le> 0\<close> means that \<open>a\<close> need not come after \<open>b\<close>. The stable
  sorted arrangement is computed by insertion: each element goes in front of the first
  element of the already sorted rest that it need not come after, so elements that
  compare equal keep their relative order.
\<close>

fun insert_sorted :: "('a \<Rightarrow> 'a \<Rightarrow> int) \<Rightarrow> 'a \<Rightarrow> 'a list \<Rightarrow> 'a list" where
  "insert_sorted comparefn x [] = [x]"
| "insert_sorted comparefn x (y # ys) =
     (if comparefn x y \<le> 0 then x # y # ys else y # insert_sorted comparefn x ys)"

definition Array_sort :: "('a \<Rightarrow> 'a \<Rightarrow> int) \<Rightarrow> 'a list \<Rightarrow> 'a list" where
  "Array_sort comparefn xs = foldr (insert_sorted comparefn) xs []"

text \<open>
  A \<open>Map\<close> keeps its entries in insertion order. \<open>set\<close> on a key that is present replaces
  the value and leaves the entry where it is; on a new key it appends an entry. Keys are
  strings and are compared by value.
\<close>

type_synonym js_map = "(string \<times> string) list"

fun Map_set :: "string \<Rightarrow> string \<Rightarrow> js_map \<Rightarrow> js_map" where
  "Map_set k v [] = [(k, v)]"
| "Map_set k v ((k', v') # m) =
     (if k' = k then (k', v) # m else (k', v') # Map_set k v m)"

definition Map_get :: "js_map \<Rightarrow> string \<Rightarrow> string option" where
  "Map_get m k = map_of m k"

text \<open>
  \<open>Array.from(items)\<close> walks \<open>items\<close> when it is iterable and otherwise treats it as an
  array-like object: it reads \<open>items.length\<close> and the properties \<open>0 .. length - 1\<close>, a
  missing property reading as \<open>undefined\<close> (\<open>None\<close>). The script passes
  \<open>mapLegend.entries\<close>, the method itself and not the result of calling it: a function
  object, which is not iterable, whose \<open>length\<close> is 0 and which has no indexed properties.
\<close>

datatype 'a array_from_items =
  Iterable "'a list"
| ArrayLike nat "nat \<Rightarrow> 'a option"

fun Array_from :: "'a array_from_items \<Rightarrow> 'a option list" where
  "Array_from (Iterable xs) = map Some xs"
| "Array_from (ArrayLike len get) = map get [0..<len]"

definition Map_entries_method :: "js_map \<Rightarrow> (string \<times> string) array_from_items" where
  "Map_entries_method m = ArrayLike 0 (\<lambda>i. None)"

section \<open>The legend builder\<close>

definition by_label :: "comparator \<Rightarrow> feature \<Rightarrow> feature \<Rightarrow> int" where
  "by_label localeCompare a b = localeCompare (label a) (label b)"

text \<open>The row appended to \<open>div.innerHTML\<close> for one entry of the map (a template literal).\<close>

definition legend_item :: "string \<Rightarrow> string \<Rightarrow> string" where
  \<open>legend_item color' name =
     [CHR 0x0A] @ replicate 16 CHR '' '' @ ''<div class="legend-item">'' @
     [CHR 0x0A] @ replicate 20 CHR '' '' @
       ''<span class="legend-color" style="background:'' @ color' @ ''"></span>'' @
     [CHR 0x0A] @ replicate 20 CHR '' '' @ name @
     [CHR 0x0A] @ replicate 16 CHR '' '' @ ''</div>''\<close>

definition legend_heading :: string where
  \<open>legend_heading = ''<strong>Legend</strong><br>''\<close>

text \<open>
  \<open>legend.onAdd\<close>: a \<open>div\<close> of class \<open>legend\<close> whose markup is the heading followed by one
  row per entry of the map, in the map's iteration order (\<open>forEach\<close> passes the value
  first and the key second). \<open>innerHTML\<close> is kept as the text the script assigns to it;
  how the browser parses that text is outside the model.
\<close>

definition onAdd :: "js_map \<Rightarrow> dom_div" where
  "onAdd mapLegend' =
     \<lparr>className = ''legend'',
      innerHTML = foldl (\<lambda>html (name, color'). html @ legend_item color' name)
                    legend_heading mapLegend'\<rparr>"

text \<open>
  The state after \<open>buildLegendFromData(data)\<close> has run: the collection and the map, both
  reachable from outside the function, and the function's local variables.
\<close>

record build_state =
  data_out :: feature_collection
  map_out :: leaflet_map
  sortedFeatures :: "feature list"
  mapLegend :: js_map
  sortedLegend :: "(string \<times> string) option list"

definition buildLegendFromData ::
  "comparator \<Rightarrow> feature_collection \<Rightarrow> leaflet_map \<Rightarrow> build_state" where
  "buildLegendFromData localeCompare data m =
     (let sorted_array = Array_sort (by_label localeCompare) (features data);
          data' = data\<lparr>features := sorted_array\<rparr>;
          map_legend = foldl (\<lambda>ml f. Map_set (label f) (color f) ml) [] sorted_array;
          sorted_legend = Array_from (Map_entries_method map_legend);
          legend = \<lparr>position = ''bottomright'', container = onAdd map_legend\<rparr>
      in \<lparr>data_out = data',
          map_out = m\<lparr>controls := controls m @ [legend]\<rparr>,
          sortedFeatures = sorted_array,
          mapLegend = map_legend,
          sortedLegend = sorted_legend\<rparr>)"

text \<open>
  The same function with the statement that computes \<open>sortedLegend\<close> taken out; it yields
  the two things that outlive the call, the collection and the map.
\<close>

definition buildLegendFromData_without_sortedLegend ::
  "comparator \<Rightarrow> feature_collection \<Rightarrow> leaflet_map \<Rightarrow> feature_collection \<times> leaflet_map" where
  "buildLegendFromData_without_sortedLegend localeCompare data m =
     (let sorted_array = Array_sort (by_label localeCompare) (features data);
          data' = data\<lparr>features := sorted_array\<rparr>;
          map_legend = foldl (\<lambda>ml f. Map_set (label f) (color f) ml) [] sorted_array;
          legend = \<lparr>position = ''bottomright'', container = onAdd map_legend\<rparr>
      in (data', m\<lparr>controls := controls m @ [legend]\<rparr>))"

section \<open>The loader\<close>

text \<open>
  The state a promise has reached once the page has nothing left to run. \<open>then\<close> runs its
  callback only on a fulfilled promise; a rejection passes through to the promise that
  \<open>then\<close> returns, and a promise that never settles leaves the next one pending. The
  callbacks change the map, so the map is threaded through the chain.
\<close>

datatype 'a promise = Pending | Fulfilled 'a | Rejected string

definition then_promise ::
  "'a promise \<times> 's \<Rightarrow> ('a \<Rightarrow> 's \<Rightarrow> 'b promise \<times> 's) \<Rightarrow> 'b promise \<times> 's" where
  "then_promise p onFulfilled =
     (case fst p of
        Pending \<Rightarrow> (Pending, snd p)
      | Fulfilled v \<Rightarrow> onFulfilled v (snd p)
      | Rejected e \<Rightarrow> (Rejected e, snd p))"

text \<open>
  What \<open>fetch\<close> delivers: a response whose \<open>json()\<close> is a promise of the parsed document,
  rejected when the payload is malformed.
\<close>

datatype response = Response (json: "feature_collection promise")

text \<open>
  The map after the first five lines of either script: created on the element \<open>map\<close>,
  centred, with the tile layer added and nothing else.
\<close>

definition initial_map :: leaflet_map where
  "initial_map =
     \<lparr>center = (-37.81, 144.96), zoom = 13,
      tile_layers = [''https://{s}.tile.openstreetmap.org/{z}/{x}/{y}.png''],
      layers = [], controls = []\<rparr>"

text \<open>
  \<open>pointToLayer\<close> and \<open>onEachFeature\<close>: a circle marker at the feature's position (GeoJSON
  stores longitude first, the map takes latitude first) with the feature's color and
  label, and a tooltip showing the label. The radius is 6 in one script and 10 in the
  other.
\<close>

definition pointToLayer :: "nat \<Rightarrow> feature \<Rightarrow> circle_marker" where
  "pointToLayer r f =
     \<lparr>latlng = (snd (coordinates f), fst (coordinates f)),
      radius = r, fillOpacity = 0.8,
      marker_color = color f, marker_label = label f,
      tooltip = label f\<rparr>"

text \<open>
  \<open>map.fitBounds(layer.getBounds(), ...)\<close> belongs to the map library and is a parameter:
  given the markers of the layer and the map it returns the map with its new view, or
  throws (\<open>Inl\<close>). The callback of the second \<open>then\<close> adds the layer, fits the view and,
  in the script with a legend, builds the legend; an exception thrown inside it rejects
  the promise returned by \<open>then\<close> and skips the rest of the callback.
\<close>

type_synonym fit_bounds = "circle_marker list \<Rightarrow> leaflet_map \<Rightarrow> string + leaflet_map"

definition on_data_with_legend ::
  "comparator \<Rightarrow> fit_bounds \<Rightarrow> feature_collection \<Rightarrow> leaflet_map \<Rightarrow> unit promise \<times> leaflet_map" where
  "on_data_with_legend localeCompare fitBounds data m =
     (let layer = map (pointToLayer 6) (features data);
          m1 = m\<lparr>layers := layers m @ [layer]\<rparr>
      in case fitBounds layer m1 of
           Inl e \<Rightarrow> (Rejected e, m1)
         | Inr m2 \<Rightarrow> (Fulfilled (), map_out (buildLegendFromData localeCompare data m2)))"

definition on_data_map_js ::
  "fit_bounds \<Rightarrow> feature_collection \<Rightarrow> leaflet_map \<Rightarrow> unit promise \<times> leaflet_map" where
  "on_data_map_js fitBounds data m =
     (let layer = map (pointToLayer 10) (features data);
          m1 = m\<lparr>layers := layers m @ [layer]\<rparr>
      in case fitBounds layer m1 of
           Inl e \<Rightarrow> (Rejected e, m1)
         | Inr m2 \<Rightarrow> (Fulfilled (), m2))"

text \<open>
  The two scripts from their first line to the end of the promise chain. The result is
  the last promise of the chain, on which the script registers no callback, and the map.
\<close>

definition script_with_legend ::
  "comparator \<Rightarrow> fit_bounds \<Rightarrow> response promise \<Rightarrow> unit promise \<times> leaflet_map" where
  "script_with_legend localeCompare fitBounds fetched =
     then_promise
       (then_promise (fetched, initial_map) (\<lambda>r m. (json r, m)))
       (on_data_with_legend localeCompare fitBounds)"

definition script_map_js :: "fit_bounds \<Rightarrow> response promise \<Rightarrow> unit promise \<times> leaflet_map" where
  "script_map_js fitBounds fetched =
     then_promise
       (then_promise (fetched, initial_map) (\<lambda>r m. (json r, m)))
       (on_data_map_js fitBounds)"

text \<open>
  The fetch fails with reason \<open>e\<close>: the request itself is rejected (network error), or it
  delivers a response whose body does not parse.
\<close>

definition fetch_fails :: "response promise \<Rightarrow> string \<Rightarrow> bool" where
  "fetch_fails fetched e \<longleftrightarrow>
     fetched = Rejected e \<or> fetched = Fulfilled (Response (Rejected e))"

definition unhandled_rejection :: "'a promise \<times> 's \<Rightarrow> bool" where
  "unhandled_rejection outcome = (case fst outcome of Rejected e \<Rightarrow> True | _ \<Rightarrow> False)"

section \<open>Orderings derived from a comparator\<close>

definition total_preorder :: "('a \<Rightarrow> 'a \<Rightarrow> int) \<Rightarrow> bool" where
  "total_preorder c \<longleftrightarrow>
     (\<forall>a b. c a b \<le> 0 \<or> c b a \<le> 0) \<and>
     (\<forall>a b d. c a b \<le> 0 \<and> c b d \<le> 0 \<longrightarrow> c a d \<le> 0)"

text \<open>A list of labels is in order when no label comes after a later one.\<close>

definition labels_in_order :: "comparator \<Rightarrow> string list \<Rightarrow> bool" where
  "labels_in_order localeCompare ls = sorted_wrt (\<lambda>a b. localeCompare a b \<le> 0) ls"

section \<open>Properties of the built-ins\<close>

lemma mset_insert_sorted: "mset (insert_sorted c x ys) = add_mset x (mset ys)"
  by (induction ys) auto

lemma mset_Array_sort: "mset (Array_sort c xs) = mset xs"
  unfolding Array_sort_def by (induction xs) (auto simp: mset_insert_sorted)

lemma set_insert_sorted: "set (insert_sorted c x ys) = insert x (set ys)"
  by (induction ys) auto

lemma sorted_insert_sorted:
  assumes "total_preorder c" "sorted_wrt (\<lambda>a b. c a b \<le> 0) ys"
  shows "sorted_wrt (\<lambda>a b. c a b \<le> 0) (insert_sorted c x ys)"
  using assms(2)
proof (induction ys)
  case Nil
  then show ?case by simp
next
  case (Cons y ys)
  show ?case
  proof (cases "c x y \<le> 0")
    case True
    have "\<forall>z\<in>set ys. c x z \<le> 0"
      using Cons.prems True assms(1) unfolding total_preorder_def by (metis sorted_wrt.simps(2))
    with True Cons.prems show ?thesis by simp
  next
    case False
    then have "c y x \<le> 0" using assms(1) unfolding total_preorder_def by blast
    with False Cons show ?thesis by (auto simp: set_insert_sorted)
  qed
qed

lemma sorted_Array_sort:
  "total_preorder c \<Longrightarrow> sorted_wrt (\<lambda>a b. c a b \<le> 0) (Array_sort c xs)"
  unfolding Array_sort_def by (induction xs) (auto intro: sorted_insert_sorted)

lemma insert_sorted_front:
  "\<forall>z\<in>set ys. c x z \<le> 0 \<Longrightarrow> insert_sorted c x ys = x # ys"
  by (cases ys) auto

lemma Array_sort_sorted_id:
  "sorted_wrt (\<lambda>a b. c a b \<le> 0) xs \<Longrightarrow> Array_sort c xs = xs"
  unfolding Array_sort_def by (induction xs) (auto simp: insert_sorted_front)

lemma filter_insert_sorted:
  assumes "\<And>a b. P a \<Longrightarrow> P b \<Longrightarrow> c a b \<le> 0"
  shows "filter P (insert_sorted c x ys) = (if P x then x # filter P ys else filter P ys)"
  using assms by (induction ys) auto

lemma filter_Array_sort:
  assumes "\<And>a b. P a \<Longrightarrow> P b \<Longrightarrow> c a b \<le> 0"
  shows "filter P (Array_sort c xs) = filter P xs"
  unfolding Array_sort_def using assms by (induction xs) (auto simp: filter_insert_sorted)

lemma consistent_total_preorder:
  "consistent_comparator c \<Longrightarrow> total_preorder (by_label c)"
  unfolding consistent_comparator_def total_preorder_def by_label_def
  by (smt (verit, best))

lemma code_unit_compare_refl: "code_unit_compare a a = 0"
  by (induction a) auto

lemma code_unit_compare_swap: "(code_unit_compare a b < 0) = (0 < code_unit_compare b a)"
  by (induction a b rule: code_unit_compare.induct) auto

lemma code_unit_compare_trans:
  "code_unit_compare a b \<le> 0 \<Longrightarrow> code_unit_compare b d \<le> 0 \<Longrightarrow> code_unit_compare a d \<le> 0"
proof (induction a b arbitrary: d rule: code_unit_compare.induct)
  case 1 then show ?case by simp
next
  case (2 y ys) then show ?case by (cases d) auto
next
  case (3 x xs) then show ?case by simp
next
  case (4 x xs y ys)
  show ?case
  proof (cases d)
    case Nil
    with 4 show ?thesis by simp
  next
    case (Cons z zs)
    consider "of_char x < (of_char y :: nat)" | "of_char x = (of_char y :: nat)"
      using "4.prems"(1) by (fastforce split: if_splits)
    then show ?thesis
    proof cases
      case 1
      have "of_char y \<le> (of_char z :: nat)"
        using "4.prems"(2) Cons by (simp split: if_splits)
      with 1 show ?thesis using Cons by simp
    next
      case 2
      have xy: "code_unit_compare xs ys \<le> 0" using "4.prems"(1) 2 by simp
      consider "of_char y < (of_char z :: nat)" | "of_char y = (of_char z :: nat)"
        using "4.prems"(2) Cons by (fastforce split: if_splits)
      then show ?thesis
      proof cases
        case 1
        with 2 show ?thesis using Cons by simp
      next
        case 22: 2
        have yz: "code_unit_compare ys zs \<le> 0" using "4.prems"(2) 22 Cons by simp
        have "code_unit_compare xs zs \<le> 0"
          using "4.IH" 2 xy yz by simp
        with 2 22 show ?thesis using Cons by simp
      qed
    qed
  qed
qed

lemma consistent_code_unit_compare: "consistent_comparator code_unit_compare"
  unfolding consistent_comparator_def
  using code_unit_compare_refl code_unit_compare_swap code_unit_compare_trans by blast


lemma key_in_keys: "(k, v) \<in> set m \<Longrightarrow> k \<in> fst ` set m"
  by force

lemma keys_Map_set:
  "map fst (Map_set k v m) = (if k \<in> fst ` set m then map fst m else map fst m @ [k])"
  by (induction m) (auto dest: key_in_keys)

lemma map_of_Map_set: "map_of (Map_set k v m) = (map_of m)(k \<mapsto> v)"
  by (induction m) (auto simp: fun_eq_iff)

lemma distinct_Map_set: "distinct (map fst m) \<Longrightarrow> distinct (map fst (Map_set k v m))"
  by (simp add: keys_Map_set)

lemma length_Map_set:
  "length (Map_set k v m) = (if k \<in> fst ` set m then length m else Suc (length m))"
  by (induction m) (auto dest: key_in_keys)

lemma distinct_keys_fold:
  "distinct (map fst m) \<Longrightarrow>
   distinct (map fst (foldl (\<lambda>ml f. Map_set (label f) (color f) ml) m fs))"
  by (induction fs arbitrary: m) (auto simp: distinct_Map_set)

lemma keys_set_fold:
  "fst ` set (foldl (\<lambda>ml f. Map_set (label f) (color f) ml) m fs) = fst ` set m \<union> label ` set fs"
proof (induction fs arbitrary: m)
  case Nil
  then show ?case by simp
next
  case (Cons f fs)
  have "fst ` set (Map_set (label f) (color f) m) = insert (label f) (fst ` set m)"
    using keys_Map_set[of "label f" "color f" m]
    by (metis (no_types, lifting) insert_absorb list.set_map list.simps(15) rotate1.simps(2) set_rotate1)
  with Cons show ?case by auto
qed

lemma sorted_keys_fold:
  "sorted_wrt R (map fst m @ map label fs) \<Longrightarrow>
   sorted_wrt R (map fst (foldl (\<lambda>ml f. Map_set (label f) (color f) ml) m fs))"
proof (induction fs arbitrary: m)
  case Nil
  then show ?case by simp
next
  case (Cons f fs)
  have "sorted_wrt R (map fst (Map_set (label f) (color f) m) @ map label fs)"
    using Cons.prems by (auto simp: keys_Map_set sorted_wrt_append)
  then show ?case using Cons.IH by simp
qed

lemma map_of_fold:
  "map_of (foldl (\<lambda>ml f. Map_set (label f) (color f) ml) m fs) k =
     (case filter (\<lambda>f. label f = k) fs of
        [] \<Rightarrow> map_of m k
      | g # gs \<Rightarrow> Some (color (last (g # gs))))"
proof (induction fs arbitrary: m)
  case Nil
  then show ?case by simp
next
  case (Cons f fs)
  show ?case
    by (simp add: Cons.IH map_of_Map_set split: list.splits)
qed

lemma length_fold_distinct:
  "distinct (map label fs) \<Longrightarrow> label ` set fs \<inter> fst ` set m = {} \<Longrightarrow>
   length (foldl (\<lambda>ml f. Map_set (label f) (color f) ml) m fs) = length m + length fs"
proof (induction fs arbitrary: m)
  case Nil
  then show ?case by simp
next
  case (Cons f fs)
  have k: "fst ` set (Map_set (label f) (color f) m) = insert (label f) (fst ` set m)"
    using keys_set_fold[of m "[f]"] by simp
  have "length (foldl (\<lambda>ml f. Map_set (label f) (color f) ml) (Map_set (label f) (color f) m) fs)
        = length (Map_set (label f) (color f) m) + length fs"
    using Cons.prems by (intro Cons.IH) (auto simp: k)
  then show ?case using Cons.prems by (auto simp: length_Map_set)
qed

lemma entry_filter_distinct:
  "distinct (map fst m) \<Longrightarrow> map_of m k = Some v \<Longrightarrow> filter (\<lambda>e. fst e = k) m = [(k, v)]"
proof (induction m)
  case Nil
  then show ?case by simp
next
  case (Cons e m)
  show ?case
  proof (cases "fst e = k")
    case True
    then have "filter (\<lambda>e. fst e = k) m = []"
      using Cons.prems(1) by (auto simp: filter_empty_conv dest: key_in_keys)
    with True Cons.prems(2) show ?thesis by (cases e) auto
  next
    case False
    with Cons show ?thesis by (cases e) auto
  qed
qed

section \<open>Projections of the builder's final state\<close>

lemma sortedFeatures_build:
  "sortedFeatures (buildLegendFromData c d m) = Array_sort (by_label c) (features d)"
  by (simp add: buildLegendFromData_def Let_def)

lemma mapLegend_build:
  "mapLegend (buildLegendFromData c d m) =
     foldl (\<lambda>ml f. Map_set (label f) (color f) ml) [] (Array_sort (by_label c) (features d))"
  by (simp add: buildLegendFromData_def Let_def)

lemma data_out_build:
  "data_out (buildLegendFromData c d m) = d\<lparr>features := Array_sort (by_label c) (features d)\<rparr>"
  by (simp add: buildLegendFromData_def Let_def)

lemma map_out_build:
  "map_out (buildLegendFromData c d m) =
     m\<lparr>controls := controls m @
        [\<lparr>position = ''bottomright'', container = onAdd (mapLegend (buildLegendFromData c d m))\<rparr>]\<rparr>"
  by (simp add: buildLegendFromData_def Let_def)

lemma sortedLegend_build: "sortedLegend (buildLegendFromData c d m) = []"
  by (simp add: buildLegendFromData_def Let_def Map_entries_method_def)

lemma rows_foldl:
  "foldl (\<lambda>html (name, color'). html @ legend_item color' name) h ml =
     h @ concat (map (\<lambda>(name, color'). legend_item color' name) ml)"
  by (induction ml arbitrary: h) (auto)

lemma innerHTML_onAdd:
  "innerHTML (onAdd ml) =
     legend_heading @ concat (map (\<lambda>(name, color'). legend_item color' name) ml)"
  by (simp add: onAdd_def rows_foldl)

lemma by_label_same:
  "consistent_comparator c \<Longrightarrow> label a = L \<Longrightarrow> label b = L \<Longrightarrow> by_label c a b \<le> 0"
  by (simp add: consistent_comparator_def by_label_def)

lemma sorted_labels_Array_sort:
  assumes "consistent_comparator c"
  shows "labels_in_order c (map label (Array_sort (by_label c) fs))"
proof -
  have "sorted_wrt (\<lambda>a b. by_label c a b \<le> 0) (Array_sort (by_label c) fs)"
    using assms by (intro sorted_Array_sort consistent_total_preorder)
  then show ?thesis
    by (simp add: labels_in_order_def sorted_wrt_map by_label_def)
qed

section \<open>The legend mapping\<close>

text \<open>
  C1. Let \<open>gs\<close> be the features of the collection that carry the label \<open>L\<close>, in input
  order, with at least one of them. The sort keeps them in that order, so the one that
  sorts last is \<open>last gs\<close>; the legend mapping has exactly one entry for \<open>L\<close>, and its
  color is the color of \<open>last gs\<close> (the last write wins). For two features \<open>gs = [f1, f2]\<close>
  that is the color of \<open>f2\<close>. In particular the collection of two features labelled
  \<open>X\<close> with colors \<open>#111\<close> and \<open>#222\<close> gives the single entry \<open>X\<close> with color \<open>#222\<close>.
\<close>

theorem legend_last_write_wins:
  assumes "consistent_comparator c"
    and "filter (\<lambda>f. label f = L) (features d) = gs"
    and "gs \<noteq> []"
  shows "filter (\<lambda>f. label f = L) (sortedFeatures (buildLegendFromData c d m)) = gs \<and>
         filter (\<lambda>e. fst e = L) (mapLegend (buildLegendFromData c d m)) = [(L, color (last gs))] \<and>
         mapLegend (buildLegendFromData c
            \<lparr>features = [\<lparr>coordinates = p, label = ''X'', color = ''#111''\<rparr>,
                         \<lparr>coordinates = q, label = ''X'', color = ''#222''\<rparr>]\<rparr> m')
           = [(''X'', ''#222'')]"
proof -
  let ?r = "buildLegendFromData c d m"
  have stable: "filter (\<lambda>f. label f = L) (sortedFeatures ?r) = gs"
    unfolding sortedFeatures_build
    using assms(1,2) by (simp add: filter_Array_sort by_label_same)
  obtain g gs' where gs: "gs = g # gs'" using assms(3) by (cases gs) auto
  have "map_of (mapLegend ?r) L = Some (color (last gs))"
    unfolding mapLegend_build map_of_fold
    using stable gs by (simp add: sortedFeatures_build)
  moreover have "distinct (map fst (mapLegend ?r))"
    unfolding mapLegend_build by (rule distinct_keys_fold) simp
  ultimately have one: "filter (\<lambda>e. fst e = L) (mapLegend ?r) = [(L, color (last gs))]"
    by (rule entry_filter_distinct[rotated])
  have "c ''X'' ''X'' = 0" using assms(1) by (simp add: consistent_comparator_def)
  then have "mapLegend (buildLegendFromData c
            \<lparr>features = [\<lparr>coordinates = p, label = ''X'', color = ''#111''\<rparr>,
                         \<lparr>coordinates = q, label = ''X'', color = ''#222''\<rparr>]\<rparr> m')
           = [(''X'', ''#222'')]"
    by (simp add: mapLegend_build Array_sort_def by_label_def)
  with stable one show ?thesis by simp
qed

theorem legend_last_write_wins_witness:
  "consistent_comparator code_unit_compare \<and>
   filter (\<lambda>f. label f = ''X'')
     (features \<lparr>features = [\<lparr>coordinates = (144.96, -37.81), label = ''X'', color = ''#111''\<rparr>,
                           \<lparr>coordinates = (144.97, -37.82), label = ''A'', color = ''#f00''\<rparr>,
                           \<lparr>coordinates = (144.98, -37.83), label = ''X'', color = ''#222''\<rparr>]\<rparr>)
     = [\<lparr>coordinates = (144.96, -37.81), label = ''X'', color = ''#111''\<rparr>,
        \<lparr>coordinates = (144.98, -37.83), label = ''X'', color = ''#222''\<rparr>] \<and>
   filter (\<lambda>e. fst e = ''X'')
     (mapLegend (buildLegendFromData code_unit_compare
        \<lparr>features = [\<lparr>coordinates = (144.96, -37.81), label = ''X'', color = ''#111''\<rparr>,
                     \<lparr>coordinates = (144.97, -37.82), label = ''A'', color = ''#f00''\<rparr>,
                     \<lparr>coordinates = (144.98, -37.83), label = ''X'', color = ''#222''\<rparr>]\<rparr>
        initial_map))
     = [(''X'', ''#222'')]"
  using legend_last_write_wins [OF consistent_code_unit_compare,
      of "''X''"
         "\<lparr>features = [\<lparr>coordinates = (144.96, -37.81), label = ''X'', color = ''#111''\<rparr>,
                     \<lparr>coordinates = (144.97, -37.82), label = ''A'', color = ''#f00''\<rparr>,
                     \<lparr>coordinates = (144.98, -37.83), label = ''X'', color = ''#222''\<rparr>]\<rparr>"
         "[\<lparr>coordinates = (144.96, -37.81), label = ''X'', color = ''#111''\<rparr>,
           \<lparr>coordinates = (144.98, -37.83), label = ''X'', color = ''#222''\<rparr>]"
         initial_map]
    consistent_code_unit_compare
  by simp

lemma sorted_wrt_subseq_keys:
  "labels_in_order c (map label fs) \<Longrightarrow>
   labels_in_order c (map fst (foldl (\<lambda>ml f. Map_set (label f) (color f) ml) [] fs))"
  unfolding labels_in_order_def using sorted_keys_fold[of _ "[]" fs] by simp

text \<open>
  C2. Whatever the order of the features in the input, the labels of the legend mapping,
  read in the mapping's iteration order, are in sorted order and pairwise different, and
  the overlay added to the map holds the heading followed by one row per entry in exactly
  that order. In particular, with \<open>A\<close> before \<open>B\<close> under the comparator, the input
  \<open>B\<close>, \<open>A\<close> gives the row of \<open>A\<close> before the row of \<open>B\<close>.
\<close>

theorem legend_rows_sorted:
  assumes "consistent_comparator c"
  shows "labels_in_order c (map fst (mapLegend (buildLegendFromData c d m))) \<and>
         distinct (map fst (mapLegend (buildLegendFromData c d m))) \<and>
         controls (map_out (buildLegendFromData c d m)) =
           controls m @
           [\<lparr>position = ''bottomright'',
             container =
               \<lparr>className = ''legend'',
                innerHTML = legend_heading @
                  concat (map (\<lambda>(name, color'). legend_item color' name)
                            (mapLegend (buildLegendFromData c d m)))\<rparr>\<rparr>] \<and>
         (c ''A'' ''B'' < 0 \<longrightarrow>
            mapLegend (buildLegendFromData c
              \<lparr>features = [\<lparr>coordinates = p, label = ''B'', color = ''#0f0''\<rparr>,
                           \<lparr>coordinates = q, label = ''A'', color = ''#f00''\<rparr>]\<rparr> m')
              = [(''A'', ''#f00''), (''B'', ''#0f0'')])"
proof -
  let ?r = "buildLegendFromData c d m"
  have 1: "labels_in_order c (map fst (mapLegend ?r))"
    unfolding mapLegend_build
    using assms by (intro sorted_wrt_subseq_keys sorted_labels_Array_sort)
  have 2: "distinct (map fst (mapLegend ?r))"
    unfolding mapLegend_build by (rule distinct_keys_fold) simp
  have 3: "controls (map_out ?r) =
           controls m @
           [\<lparr>position = ''bottomright'',
             container =
               \<lparr>className = ''legend'',
                innerHTML = legend_heading @
                  concat (map (\<lambda>(name, color'). legend_item color' name) (mapLegend ?r))\<rparr>\<rparr>]"
    by (simp add: map_out_build onAdd_def rows_foldl)
  have 4: "mapLegend (buildLegendFromData c
              \<lparr>features = [\<lparr>coordinates = p, label = ''B'', color = ''#0f0''\<rparr>,
                           \<lparr>coordinates = q, label = ''A'', color = ''#f00''\<rparr>]\<rparr> m')
              = [(''A'', ''#f00''), (''B'', ''#0f0'')]" if "c ''A'' ''B'' < 0"
  proof -
    have "0 < c ''B'' ''A''" using that assms by (simp add: consistent_comparator_def)
    then show ?thesis
      by (simp add: mapLegend_build Array_sort_def by_label_def)
  qed
  from 1 2 3 4 show ?thesis by blast
qed

theorem legend_rows_sorted_witness:
  "consistent_comparator code_unit_compare \<and>
   code_unit_compare ''A'' ''B'' < 0 \<and>
   labels_in_order code_unit_compare [''A'', ''B''] \<and>
   mapLegend (buildLegendFromData code_unit_compare
      \<lparr>features = [\<lparr>coordinates = (144.96, -37.81), label = ''B'', color = ''#0f0''\<rparr>,
                   \<lparr>coordinates = (144.97, -37.82), label = ''A'', color = ''#f00''\<rparr>]\<rparr>
      initial_map)
     = [(''A'', ''#f00''), (''B'', ''#0f0'')] \<and>
   controls (map_out (buildLegendFromData code_unit_compare
      \<lparr>features = [\<lparr>coordinates = (144.96, -37.81), label = ''B'', color = ''#0f0''\<rparr>,
                   \<lparr>coordinates = (144.97, -37.82), label = ''A'', color = ''#f00''\<rparr>]\<rparr>
      initial_map))
     = [\<lparr>position = ''bottomright'',
         container =
           \<lparr>className = ''legend'',
            innerHTML = legend_heading @ legend_item ''#f00'' ''A'' @ legend_item ''#0f0'' ''B''\<rparr>\<rparr>]"
proof -
  let ?d = "\<lparr>features = [\<lparr>coordinates = (144.96, -37.81), label = ''B'', color = ''#0f0''\<rparr>,
                   \<lparr>coordinates = (144.97, -37.82), label = ''A'', color = ''#f00''\<rparr>]\<rparr>"
  have lt: "code_unit_compare ''A'' ''B'' < 0" by simp
  have ml: "mapLegend (buildLegendFromData code_unit_compare ?d initial_map)
              = [(''A'', ''#f00''), (''B'', ''#0f0'')]"
    using legend_rows_sorted [OF consistent_code_unit_compare,
        of ?d initial_map "(144.96, -37.81)" "(144.97, -37.82)" initial_map] lt
    by blast
  show ?thesis
    using legend_rows_sorted [OF consistent_code_unit_compare, of ?d initial_map]
      consistent_code_unit_compare lt
    unfolding ml
    by (simp add: initial_map_def)
qed

lemma set_Array_sort: "set (Array_sort c xs) = set xs"
  by (metis mset_Array_sort set_mset_mset)

lemma distinct_map_Array_sort:
  "distinct (map f (Array_sort c xs)) = distinct (map f xs)"
proof -
  have "mset (map f (Array_sort c xs)) = mset (map f xs)"
    by (simp add: mset_Array_sort)
  then show ?thesis by (metis distinct_count_atmost_1 set_mset_mset)
qed

lemma length_Array_sort: "length (Array_sort c xs) = length xs"
  by (metis mset_Array_sort size_mset)

lemma map_of_fold_distinct:
  assumes "distinct (map label fs)" and "f \<in> set fs"
  shows "map_of (foldl (\<lambda>ml f. Map_set (label f) (color f) ml) [] fs) (label f) = Some (color f)"
proof -
  have "filter (\<lambda>g. label g = label f) fs = [f]"
    using assms
  proof (induction fs)
    case Nil
    then show ?case by simp
  next
    case (Cons a fs)
    then show ?case by (auto simp: filter_empty_conv image_iff)
  qed
  then show ?thesis by (simp add: map_of_fold)
qed

text \<open>
  C5. When the labels of the \<open>N\<close> features of the collection are pairwise different, the
  legend mapping has exactly \<open>N\<close> entries, looking up the label of any feature gives that
  feature's color, and the entries are exactly the (label, color) pairs of the features.
\<close>

theorem legend_distinct_labels:
  assumes "distinct (map label (features d))"
  shows "length (mapLegend (buildLegendFromData c d m)) = length (features d) \<and>
         (\<forall>f \<in> set (features d).
            Map_get (mapLegend (buildLegendFromData c d m)) (label f) = Some (color f)) \<and>
         set (mapLegend (buildLegendFromData c d m)) = (\<lambda>f. (label f, color f)) ` set (features d)"
proof -
  let ?s = "Array_sort (by_label c) (features d)"
  let ?ml = "mapLegend (buildLegendFromData c d m)"
  have ds: "distinct (map label ?s)"
    using assms by (simp add: distinct_map_Array_sort)
  have len: "length ?ml = length (features d)"
    unfolding mapLegend_build
    using length_fold_distinct[of ?s "[]"] ds by (simp add: length_Array_sort)
  have get: "Map_get ?ml (label f) = Some (color f)" if "f \<in> set (features d)" for f
    unfolding mapLegend_build Map_get_def
    using that ds by (intro map_of_fold_distinct) (simp_all add: set_Array_sort)
  have dk: "distinct (map fst ?ml)"
    unfolding mapLegend_build by (rule distinct_keys_fold) simp
  have keys: "fst ` set ?ml = label ` set (features d)"
    unfolding mapLegend_build by (simp add: keys_set_fold set_Array_sort)
  have "set ?ml = (\<lambda>f. (label f, color f)) ` set (features d)"
  proof (intro equalityI subsetI)
    fix e assume e: "e \<in> set ?ml"
    then have "fst e \<in> label ` set (features d)" using keys by (metis imageI)
    then obtain f where f: "f \<in> set (features d)" "fst e = label f" by auto
    have "map_of ?ml (fst e) = Some (snd e)" using e dk by simp
    with get[OF f(1)] f(2) have "snd e = color f" by (simp add: Map_get_def)
    with f show "e \<in> (\<lambda>f. (label f, color f)) ` set (features d)"
      by (metis (mono_tags, lifting) imageI prod.collapse)
  next
    fix e assume "e \<in> (\<lambda>f. (label f, color f)) ` set (features d)"
    then obtain f where f: "f \<in> set (features d)" "e = (label f, color f)" by auto
    from get[OF f(1)] show "e \<in> set ?ml"
      unfolding f(2) Map_get_def by (rule map_of_SomeD)
  qed
  with len get show ?thesis by blast
qed

theorem legend_distinct_labels_witness:
  "distinct (map label (features
      \<lparr>features = [\<lparr>coordinates = (144.96, -37.81), label = ''B'', color = ''#0f0''\<rparr>,
                   \<lparr>coordinates = (144.97, -37.82), label = ''A'', color = ''#f00''\<rparr>,
                   \<lparr>coordinates = (144.98, -37.83), label = ''C'', color = ''#0f0''\<rparr>]\<rparr>)) \<and>
   length (mapLegend (buildLegendFromData code_unit_compare
      \<lparr>features = [\<lparr>coordinates = (144.96, -37.81), label = ''B'', color = ''#0f0''\<rparr>,
                   \<lparr>coordinates = (144.97, -37.82), label = ''A'', color = ''#f00''\<rparr>,
                   \<lparr>coordinates = (144.98, -37.83), label = ''C'', color = ''#0f0''\<rparr>]\<rparr>
      initial_map)) = 3 \<and>
   Map_get (mapLegend (buildLegendFromData code_unit_compare
      \<lparr>features = [\<lparr>coordinates = (144.96, -37.81), label = ''B'', color = ''#0f0''\<rparr>,
                   \<lparr>coordinates = (144.97, -37.82), label = ''A'', color = ''#f00''\<rparr>,
                   \<lparr>coordinates = (144.98, -37.83), label = ''C'', color = ''#0f0''\<rparr>]\<rparr>
      initial_map)) ''A'' = Some ''#f00''"
  using legend_distinct_labels [of
      "\<lparr>features = [\<lparr>coordinates = (144.96, -37.81), label = ''B'', color = ''#0f0''\<rparr>,
                   \<lparr>coordinates = (144.97, -37.82), label = ''A'', color = ''#f00''\<rparr>,
                   \<lparr>coordinates = (144.98, -37.83), label = ''C'', color = ''#0f0''\<rparr>]\<rparr>"
      code_unit_compare initial_map]
  by simp

text \<open>
  C6. The legend mapping is built by one \<open>set\<close> call per element of \<open>sortedFeatures\<close>, in
  order, with that element's label and color; the labels of these calls, in the order of
  the calls, never step down under the comparator.
\<close>

theorem labels_fed_in_order:
  assumes "consistent_comparator c"
  shows "mapLegend (buildLegendFromData c d m) =
           foldl (\<lambda>ml (name, color'). Map_set name color' ml) []
             (map (\<lambda>f. (label f, color f)) (sortedFeatures (buildLegendFromData c d m))) \<and>
         labels_in_order c (map label (sortedFeatures (buildLegendFromData c d m)))"
  using assms
  by (simp add: mapLegend_build sortedFeatures_build sorted_labels_Array_sort foldl_map)

theorem labels_fed_in_order_witness:
  "consistent_comparator code_unit_compare \<and>
   labels_in_order code_unit_compare (map label (sortedFeatures (buildLegendFromData code_unit_compare
      \<lparr>features = [\<lparr>coordinates = (144.96, -37.81), label = ''B'', color = ''#0f0''\<rparr>,
                   \<lparr>coordinates = (144.97, -37.82), label = ''A'', color = ''#f00''\<rparr>,
                   \<lparr>coordinates = (144.98, -37.83), label = ''B'', color = ''#00f''\<rparr>]\<rparr>
      initial_map))) \<and>
   map label (sortedFeatures (buildLegendFromData code_unit_compare
      \<lparr>features = [\<lparr>coordinates = (144.96, -37.81), label = ''B'', color = ''#0f0''\<rparr>,
                   \<lparr>coordinates = (144.97, -37.82), label = ''A'', color = ''#f00''\<rparr>,
                   \<lparr>coordinates = (144.98, -37.83), label = ''B'', color = ''#00f''\<rparr>]\<rparr>
      initial_map)) = [''A'', ''B'', ''B'']"
  using labels_fed_in_order [OF consistent_code_unit_compare, of
      "\<lparr>features = [\<lparr>coordinates = (144.96, -37.81), label = ''B'', color = ''#0f0''\<rparr>,
                   \<lparr>coordinates = (144.97, -37.82), label = ''A'', color = ''#f00''\<rparr>,
                   \<lparr>coordinates = (144.98, -37.83), label = ''B'', color = ''#00f''\<rparr>]\<rparr>"
      initial_map]
    consistent_code_unit_compare
  by (simp add: sortedFeatures_build Array_sort_def by_label_def)

section \<open>Effects on the collection, and rebuilding\<close>

lemma Array_sort_idem:
  assumes "consistent_comparator c"
  shows "Array_sort (by_label c) (Array_sort (by_label c) fs) = Array_sort (by_label c) fs"
  using assms by (intro Array_sort_sorted_id sorted_Array_sort consistent_total_preorder)

text \<open>
  C7. The mapping is built from a fresh, empty \<open>Map\<close> on every call. Building the legend
  again from the collection as the first call left it gives the same mapping as the first
  call, entry for entry, so nothing accumulates; and the mapping does not depend on the
  map the overlay is attached to.
\<close>

theorem rebuild_same_mapping:
  assumes "consistent_comparator c"
  shows "mapLegend (buildLegendFromData c (data_out (buildLegendFromData c d m)) m') =
           mapLegend (buildLegendFromData c d m) \<and>
         mapLegend (buildLegendFromData c d m') = mapLegend (buildLegendFromData c d m)"
  using assms by (simp add: mapLegend_build data_out_build Array_sort_idem)

theorem rebuild_same_mapping_witness:
  "consistent_comparator code_unit_compare \<and>
   mapLegend (buildLegendFromData code_unit_compare
     (data_out (buildLegendFromData code_unit_compare
        \<lparr>features = [\<lparr>coordinates = (144.96, -37.81), label = ''B'', color = ''#0f0''\<rparr>,
                     \<lparr>coordinates = (144.97, -37.82), label = ''A'', color = ''#f00''\<rparr>,
                     \<lparr>coordinates = (144.98, -37.83), label = ''B'', color = ''#00f''\<rparr>]\<rparr>
        initial_map))
     (map_out (buildLegendFromData code_unit_compare
        \<lparr>features = [\<lparr>coordinates = (144.96, -37.81), label = ''B'', color = ''#0f0''\<rparr>,
                     \<lparr>coordinates = (144.97, -37.82), label = ''A'', color = ''#f00''\<rparr>,
                     \<lparr>coordinates = (144.98, -37.83), label = ''B'', color = ''#00f''\<rparr>]\<rparr>
        initial_map)))
   = [(''A'', ''#f00''), (''B'', ''#00f'')]"
proof -
  let ?d = "\<lparr>features = [\<lparr>coordinates = (144.96, -37.81), label = ''B'', color = ''#0f0''\<rparr>,
                     \<lparr>coordinates = (144.97, -37.82), label = ''A'', color = ''#f00''\<rparr>,
                     \<lparr>coordinates = (144.98, -37.83), label = ''B'', color = ''#00f''\<rparr>]\<rparr>"
  have first: "mapLegend (buildLegendFromData code_unit_compare ?d initial_map)
                 = [(''A'', ''#f00''), (''B'', ''#00f'')]"
    by (simp add: mapLegend_build Array_sort_def by_label_def)
  show ?thesis
    using rebuild_same_mapping [OF consistent_code_unit_compare, of ?d initial_map
        "map_out (buildLegendFromData code_unit_compare ?d initial_map)"]
      consistent_code_unit_compare first
    by simp
qed

text \<open>
  C10. The call rearranges \<open>data.features\<close> into label order and nothing more: the
  features after the call are, as a multiset, the features before the call (none added,
  none removed, none altered), and their labels are in sorted order.
\<close>

theorem features_multiset_preserved:
  assumes "consistent_comparator c"
  shows "mset (features (data_out (buildLegendFromData c d m))) = mset (features d) \<and>
         labels_in_order c (map label (features (data_out (buildLegendFromData c d m))))"
  using assms by (simp add: data_out_build mset_Array_sort sorted_labels_Array_sort)

theorem features_multiset_preserved_witness:
  "consistent_comparator code_unit_compare \<and>
   mset (features (data_out (buildLegendFromData code_unit_compare
      \<lparr>features = [\<lparr>coordinates = (144.96, -37.81), label = ''B'', color = ''#0f0''\<rparr>,
                   \<lparr>coordinates = (144.97, -37.82), label = ''A'', color = ''#f00''\<rparr>]\<rparr>
      initial_map)))
   = {#\<lparr>coordinates = (144.96, -37.81), label = ''B'', color = ''#0f0''\<rparr>,
       \<lparr>coordinates = (144.97, -37.82), label = ''A'', color = ''#f00''\<rparr>#} \<and>
   features (data_out (buildLegendFromData code_unit_compare
      \<lparr>features = [\<lparr>coordinates = (144.96, -37.81), label = ''B'', color = ''#0f0''\<rparr>,
                   \<lparr>coordinates = (144.97, -37.82), label = ''A'', color = ''#f00''\<rparr>]\<rparr>
      initial_map))
   = [\<lparr>coordinates = (144.97, -37.82), label = ''A'', color = ''#f00''\<rparr>,
      \<lparr>coordinates = (144.96, -37.81), label = ''B'', color = ''#0f0''\<rparr>]"
proof -
  let ?d = "\<lparr>features = [\<lparr>coordinates = (144.96, -37.81), label = ''B'', color = ''#0f0''\<rparr>,
                   \<lparr>coordinates = (144.97, -37.82), label = ''A'', color = ''#f00''\<rparr>]\<rparr>"
  have out: "features (data_out (buildLegendFromData code_unit_compare ?d initial_map))
   = [\<lparr>coordinates = (144.97, -37.82), label = ''A'', color = ''#f00''\<rparr>,
      \<lparr>coordinates = (144.96, -37.81), label = ''B'', color = ''#0f0''\<rparr>]"
    by (simp add: data_out_build Array_sort_def by_label_def)
  have "mset (features (data_out (buildLegendFromData code_unit_compare ?d initial_map)))
          = mset (features ?d)"
    using features_multiset_preserved [OF consistent_code_unit_compare, of ?d initial_map]
    by blast
  then show ?thesis using consistent_code_unit_compare out by simp
qed

text \<open>
  C3, as stated, fails: \<open>sort\<close> works on \<open>data.features\<close> itself, so a collection given
  as \<open>B\<close>, \<open>A\<close> is no longer the same sequence after the call.
\<close>

theorem input_array_reordered_counterexample:
  "features (data_out (buildLegendFromData code_unit_compare
      \<lparr>features = [\<lparr>coordinates = (144.96, -37.81), label = ''B'', color = ''#0f0''\<rparr>,
                   \<lparr>coordinates = (144.97, -37.82), label = ''A'', color = ''#f00''\<rparr>]\<rparr>
      initial_map))
   \<noteq> features
      \<lparr>features = [\<lparr>coordinates = (144.96, -37.81), label = ''B'', color = ''#0f0''\<rparr>,
                   \<lparr>coordinates = (144.97, -37.82), label = ''A'', color = ''#f00''\<rparr>]\<rparr>"
  by (simp add: data_out_build Array_sort_def by_label_def)

text \<open>
  C3, amended. \<open>sortedFeatures\<close> is \<open>data.features\<close> itself, sorted in place: after the
  call \<open>data.features\<close> is the sorted array, its labels are in sorted order, it holds the
  same features as before the call, the features that share a label are still in their
  original relative order, and the sequence is the same as before the call exactly when
  the labels of the input were already in sorted order.
\<close>

theorem input_array_sorted_in_place:
  assumes "consistent_comparator c"
  shows "features (data_out (buildLegendFromData c d m)) = sortedFeatures (buildLegendFromData c d m) \<and>
         labels_in_order c (map label (features (data_out (buildLegendFromData c d m)))) \<and>
         mset (features (data_out (buildLegendFromData c d m))) = mset (features d) \<and>
         filter (\<lambda>f. label f = L) (features (data_out (buildLegendFromData c d m)))
           = filter (\<lambda>f. label f = L) (features d) \<and>
         (features (data_out (buildLegendFromData c d m)) = features d
            \<longleftrightarrow> labels_in_order c (map label (features d)))"
proof -
  let ?s = "Array_sort (by_label c) (features d)"
  have a: "features (data_out (buildLegendFromData c d m)) = ?s"
    by (simp add: data_out_build)
  have b: "filter (\<lambda>f. label f = L) ?s = filter (\<lambda>f. label f = L) (features d)"
    using assms by (simp add: filter_Array_sort by_label_same)
  have c1: "?s = features d" if "labels_in_order c (map label (features d))"
  proof -
    from that have "sorted_wrt (\<lambda>a b. by_label c a b \<le> 0) (features d)"
      by (simp add: labels_in_order_def sorted_wrt_map by_label_def)
    then show ?thesis by (rule Array_sort_sorted_id)
  qed
  have c2: "labels_in_order c (map label (features d))" if "?s = features d"
    using sorted_labels_Array_sort[OF assms, of "features d"] that by simp
  have s: "labels_in_order c (map label ?s)"
    using assms by (rule sorted_labels_Array_sort)
  have p: "mset ?s = mset (features d)"
    by (rule mset_Array_sort)
  from a b c1 c2 s p show ?thesis
    by (auto simp: sortedFeatures_build)
qed

theorem input_array_sorted_in_place_witness:
  "consistent_comparator code_unit_compare \<and>
   labels_in_order code_unit_compare (map label (features
      \<lparr>features = [\<lparr>coordinates = (144.96, -37.81), label = ''A'', color = ''#f00''\<rparr>,
                   \<lparr>coordinates = (144.97, -37.82), label = ''B'', color = ''#0f0''\<rparr>]\<rparr>)) \<and>
   features (data_out (buildLegendFromData code_unit_compare
      \<lparr>features = [\<lparr>coordinates = (144.96, -37.81), label = ''A'', color = ''#f00''\<rparr>,
                   \<lparr>coordinates = (144.97, -37.82), label = ''B'', color = ''#0f0''\<rparr>]\<rparr>
      initial_map))
   = [\<lparr>coordinates = (144.96, -37.81), label = ''A'', color = ''#f00''\<rparr>,
      \<lparr>coordinates = (144.97, -37.82), label = ''B'', color = ''#0f0''\<rparr>] \<and>
   labels_in_order code_unit_compare (map label (features (data_out
     (buildLegendFromData code_unit_compare
        \<lparr>features = [\<lparr>coordinates = (144.96, -37.81), label = ''A'', color = ''#f00''\<rparr>,
                     \<lparr>coordinates = (144.97, -37.82), label = ''B'', color = ''#0f0''\<rparr>]\<rparr>
        initial_map))))"
proof -
  let ?d = "\<lparr>features = [\<lparr>coordinates = (144.96, -37.81), label = ''A'', color = ''#f00''\<rparr>,
                   \<lparr>coordinates = (144.97, -37.82), label = ''B'', color = ''#0f0''\<rparr>]\<rparr>"
  have ord: "labels_in_order code_unit_compare (map label (features ?d))"
    by (simp add: labels_in_order_def)
  have all: "features (data_out (buildLegendFromData code_unit_compare ?d initial_map)) = features ?d \<and>
        labels_in_order code_unit_compare
          (map label (features (data_out (buildLegendFromData code_unit_compare ?d initial_map))))"
    using ord input_array_sorted_in_place [OF consistent_code_unit_compare, of ?d initial_map]
    by blast
  then show ?thesis using consistent_code_unit_compare ord by simp
qed

text \<open>
  C9. \<open>sortedLegend\<close> is the empty array for every input, because \<open>Array.from\<close> receives
  the \<open>entries\<close> method and not its result; nothing reads it, and the collection and the
  map (with the rendered legend) left by the function are those left by the function
  without that statement.
\<close>

theorem sortedLegend_dead:
  "sortedLegend (buildLegendFromData c d m) = [] \<and>
   (data_out (buildLegendFromData c d m), map_out (buildLegendFromData c d m))
     = buildLegendFromData_without_sortedLegend c d m"
  by (simp add: buildLegendFromData_def buildLegendFromData_without_sortedLegend_def
      Let_def Map_entries_method_def)

section \<open>Behaviour of the loader\<close>

lemma onAdd_empty: "onAdd [] = \<lparr>className = ''legend'', innerHTML = legend_heading\<rparr>"
  by (simp add: onAdd_def)

lemma script_with_legend_loaded:
  "script_with_legend c fitBounds (Fulfilled (Response (Fulfilled d))) =
     on_data_with_legend c fitBounds d initial_map"
  by (simp add: script_with_legend_def then_promise_def)

text \<open>
  An empty collection gives a layer without markers, and what follows is decided by
  \<open>fitBounds\<close> on that layer: if it returns, the legend is attached with the heading and
  no rows, on the map as \<open>fitBounds\<close> left it; if it throws, the callback ends there and
  no legend is built.
\<close>

lemma empty_collection_fit_returns:
  assumes "fitBounds [] (initial_map\<lparr>layers := [[]]\<rparr>) = Inr m2"
  shows "script_with_legend c fitBounds (Fulfilled (Response (Fulfilled \<lparr>features = []\<rparr>))) =
           (Fulfilled (),
            m2\<lparr>controls := controls m2 @
               [\<lparr>position = ''bottomright'',
                 container = \<lparr>className = ''legend'', innerHTML = legend_heading\<rparr>\<rparr>]\<rparr>)"
  using assms
  by (simp add: script_with_legend_loaded on_data_with_legend_def initial_map_def
      map_out_build mapLegend_build Array_sort_def onAdd_empty)

lemma empty_collection_fit_throws:
  assumes "fitBounds [] (initial_map\<lparr>layers := [[]]\<rparr>) = Inl e"
  shows "script_with_legend c fitBounds (Fulfilled (Response (Fulfilled \<lparr>features = []\<rparr>))) =
           (Rejected e, initial_map\<lparr>layers := [[]]\<rparr>)"
  using assms
  by (simp add: script_with_legend_loaded on_data_with_legend_def initial_map_def)

text \<open>
  C8. When the fetch fails, by a network error or by a payload that does not parse,
  neither callback body of the second \<open>then\<close> runs in either script: the chain ends in a
  rejected promise carrying the reason, on which nothing is registered, and the map is
  still the initial one, with no marker layer, no legend, and the initial center and zoom.
\<close>

theorem fetch_failure_unhandled:
  assumes "fetch_fails fetched e"
  shows "script_with_legend c fitBounds fetched = (Rejected e, initial_map) \<and>
         script_map_js fitBounds fetched = (Rejected e, initial_map) \<and>
         unhandled_rejection (script_with_legend c fitBounds fetched) \<and>
         unhandled_rejection (script_map_js fitBounds fetched) \<and>
         layers initial_map = [] \<and> controls initial_map = [] \<and>
         center initial_map = (-37.81, 144.96) \<and> zoom initial_map = 13"
proof -
  from assms consider "fetched = Rejected e" | "fetched = Fulfilled (Response (Rejected e))"
    unfolding fetch_fails_def by blast
  then have both: "script_with_legend c fitBounds fetched = (Rejected e, initial_map) \<and>
         script_map_js fitBounds fetched = (Rejected e, initial_map)"
    by cases (simp_all add: script_with_legend_def script_map_js_def then_promise_def)
  then show ?thesis
    by (simp add: unhandled_rejection_def initial_map_def)
qed

theorem fetch_failure_unhandled_witness:
  "fetch_fails (Fulfilled (Response (Rejected ''SyntaxError''))) ''SyntaxError'' \<and>
   script_with_legend code_unit_compare (\<lambda>layer m. Inr m)
       (Fulfilled (Response (Rejected ''SyntaxError'')))
     = (Rejected ''SyntaxError'', initial_map) \<and>
   script_map_js (\<lambda>layer m. Inr m) (Fulfilled (Response (Rejected ''SyntaxError'')))
     = (Rejected ''SyntaxError'', initial_map)"
proof -
  have f: "fetch_fails (Fulfilled (Response (Rejected ''SyntaxError''))) ''SyntaxError''"
    by (simp add: fetch_fails_def)
  show ?thesis
    using f fetch_failure_unhandled [OF f, of code_unit_compare "\<lambda>layer m. Inr m"]
    by blast
qed

end
